theory Spec2Isabelle
  imports Main "HOL-Library.AList"
begin

section \<open>Python values\<close>

text \<open>
  The handlers of \<^verbatim>\<open>main.py\<close> work on dictionaries (the session, a user record, a
  classroom record, a template context) whose values are strings, booleans, integers,
  \<^verbatim>\<open>None\<close>, dictionaries and lists. A dictionary is an association list over string
  keys, in insertion order. \<open>PRequest\<close> is the request object that every template
  context carries under the key \<^verbatim>\<open>request\<close>; of a request the handlers read only the
  session, so the value holds the session.
\<close>

datatype pyval =
    PNone
  | PBool bool
  | PInt int
  | PStr string
  | PDict "(string \<times> pyval) list"
  | PList "pyval list"
  | PRequest "(string \<times> pyval) list"

type_synonym pydict = "(string \<times> pyval) list"

text \<open>Python's truth value: \<^verbatim>\<open>None\<close>, \<^verbatim>\<open>False\<close>, \<^verbatim>\<open>0\<close>, \<^verbatim>\<open>""\<close>, \<^verbatim>\<open>{}\<close> and \<^verbatim>\<open>[]\<close> are false.\<close>

fun truthy :: "pyval \<Rightarrow> bool" where
  "truthy PNone = False"
| "truthy (PBool b) = b"
| "truthy (PInt i) = (i \<noteq> 0)"
| "truthy (PStr s) = (s \<noteq> [])"
| "truthy (PDict d) = (d \<noteq> [])"
| "truthy (PList xs) = (xs \<noteq> [])"
| "truthy (PRequest s) = True"

text \<open>The truth value of a result that is \<^verbatim>\<open>None\<close> or a dictionary.\<close>

fun truthy_opt :: "pydict option \<Rightarrow> bool" where
  "truthy_opt None = False"
| "truthy_opt (Some d) = truthy (PDict d)"

text \<open>\<^verbatim>\<open>d.get(k)\<close>: the value under \<open>k\<close>, \<^verbatim>\<open>None\<close> when the key is absent.\<close>

definition dict_get :: "pydict \<Rightarrow> string \<Rightarrow> pyval" where
  "dict_get d k = (case map_of d k of None \<Rightarrow> PNone | Some v \<Rightarrow> v)"

text \<open>\<^verbatim>\<open>d[k] = v\<close>: overwrite in place, or append a new key.\<close>

definition dict_set :: "pydict \<Rightarrow> string \<Rightarrow> pyval \<Rightarrow> pydict" where
  "dict_set d k v = AList.update k v d"

section \<open>The imported stores\<close>

text \<open>
  \<^verbatim>\<open>main.py\<close> imports \<^verbatim>\<open>register_user\<close>, \<^verbatim>\<open>get_user\<close> and \<^verbatim>\<open>Role\<close> from
  \<^verbatim>\<open>user_db\<close> and five functions from \<^verbatim>\<open>classroom_db\<close>. The handlers are modelled over
  any implementation of them: a record of the operations, each taking the state of its
  store (\<open>'us\<close> for users, \<open>'cs\<close> for classrooms) and, when it writes, returning the new
  one. The two read operations return \<^verbatim>\<open>None\<close> or a dictionary.
\<close>

text \<open>Modelled from the spec: the enum \<^verbatim>\<open>Role\<close> of \<^verbatim>\<open>user_db\<close>, "role: enum{Admin, Student}".\<close>

datatype Role = Admin | Student

record ('us, 'cs) db =
  get_user :: "'us \<Rightarrow> pyval \<Rightarrow> pydict option"
  register_user :: "'us \<Rightarrow> string \<Rightarrow> string \<Rightarrow> Role \<Rightarrow> bool \<times> 'us"
  create_classroom :: "'cs \<Rightarrow> string \<Rightarrow> string \<Rightarrow> int \<Rightarrow> pydict \<Rightarrow> int \<times> 'cs"
  get_classroom :: "'cs \<Rightarrow> int \<Rightarrow> pydict option"
  get_all_classrooms :: "'cs \<Rightarrow> pyval"
  update_classroom :: "'cs \<Rightarrow> int \<Rightarrow> string \<Rightarrow> string \<Rightarrow> int \<Rightarrow> pydict \<Rightarrow> bool \<times> 'cs"
  delete_classroom :: "'cs \<Rightarrow> int \<Rightarrow> bool \<times> 'cs"

section \<open>State, responses and errors\<close>

text \<open>
  What a handler can read and change: the session of the request (\<^verbatim>\<open>request.session\<close>)
  and the two stores. Form fields and path parameters are arguments of the handlers.
\<close>

record ('us, 'cs) app_state =
  session :: pydict
  user_store :: "'us"
  classroom_store :: "'cs"

text \<open>\<^verbatim>\<open>HTTPException(status_code, detail)\<close>.\<close>

datatype http_exception = HTTPException nat string

text \<open>
  \<^verbatim>\<open>templates.TemplateResponse(name, context)\<close> and
  \<^verbatim>\<open>RedirectResponse(url, status_code)\<close>. A template response is built with no status
  code, which is Starlette's default, 200.
\<close>

datatype response =
    TemplateResponse string pydict
  | RedirectResponse string nat

fun status_code :: "response \<Rightarrow> nat" where
  "status_code (TemplateResponse name ctx) = 200"
| "status_code (RedirectResponse url code) = code"


definition HTTP_303_SEE_OTHER :: nat where
  "HTTP_303_SEE_OTHER = 303"

type_synonym ('us, 'cs) outcome = "(http_exception + response) \<times> ('us, 'cs) app_state"

subsection \<open>The message literals\<close>

text \<open>
  The messages of the source are Korean; a \<open>string\<close> holds bytes, so each literal is
  its UTF-8 encoding.
\<close>

text \<open>The detail of the 401 error ("login is required").\<close>

definition login_required_detail :: string where
  "login_required_detail =
     [CHR 0xEB, CHR 0xA1, CHR 0x9C, CHR 0xEA, CHR 0xB7, CHR 0xB8, CHR 0xEC, CHR 0x9D, CHR 0xB8,
      CHR 0xEC, CHR 0x9D, CHR 0xB4] @
     '' '' @
     [CHR 0xED, CHR 0x95, CHR 0x84, CHR 0xEC, CHR 0x9A, CHR 0x94, CHR 0xED, CHR 0x95, CHR 0xA9,
      CHR 0xEB, CHR 0x8B, CHR 0x88, CHR 0xEB, CHR 0x8B, CHR 0xA4] @
     ''.''"

text \<open>The detail of the 403 error ("administrator rights are required").\<close>

definition admin_required_detail :: string where
  "admin_required_detail =
     [CHR 0xEA, CHR 0xB4, CHR 0x80, CHR 0xEB, CHR 0xA6, CHR 0xAC, CHR 0xEC, CHR 0x9E, CHR 0x90] @
     '' '' @
     [CHR 0xEA, CHR 0xB6, CHR 0x8C, CHR 0xED, CHR 0x95, CHR 0x9C, CHR 0xEC, CHR 0x9D, CHR 0xB4] @
     '' '' @
     [CHR 0xED, CHR 0x95, CHR 0x84, CHR 0xEC, CHR 0x9A, CHR 0x94, CHR 0xED, CHR 0x95, CHR 0xA9,
      CHR 0xEB, CHR 0x8B, CHR 0x88, CHR 0xEB, CHR 0x8B, CHR 0xA4] @
     ''.''"

text \<open>The detail of the 404 error ("the classroom cannot be found").\<close>

definition classroom_not_found_detail :: string where
  "classroom_not_found_detail =
     [CHR 0xEA, CHR 0xB0, CHR 0x95, CHR 0xEC, CHR 0x9D, CHR 0x98, CHR 0xEC, CHR 0x8B, CHR 0xA4,
      CHR 0xEC, CHR 0x9D, CHR 0x84] @
     '' '' @
     [CHR 0xEC, CHR 0xB0, CHR 0xBE, CHR 0xEC, CHR 0x9D, CHR 0x84] @
     '' '' @
     [CHR 0xEC, CHR 0x88, CHR 0x98] @
     '' '' @
     [CHR 0xEC, CHR 0x97, CHR 0x86, CHR 0xEC, CHR 0x8A, CHR 0xB5, CHR 0xEB, CHR 0x8B, CHR 0x88,
      CHR 0xEB, CHR 0x8B, CHR 0xA4] @
     ''.''"

text \<open>The registration form's message for an empty field ("enter both the ID and the password").\<close>

definition missing_fields_msg :: string where
  "missing_fields_msg =
     ''ID'' @
     [CHR 0xEC, CHR 0x99, CHR 0x80] @
     '' '' @
     [CHR 0xEB, CHR 0xB9, CHR 0x84, CHR 0xEB, CHR 0xB0, CHR 0x80, CHR 0xEB, CHR 0xB2, CHR 0x88,
      CHR 0xED, CHR 0x98, CHR 0xB8, CHR 0xEB, CHR 0xA5, CHR 0xBC] @
     '' '' @
     [CHR 0xEB, CHR 0xAA, CHR 0xA8, CHR 0xEB, CHR 0x91, CHR 0x90] @
     '' '' @
     [CHR 0xEC, CHR 0x9E, CHR 0x85, CHR 0xEB, CHR 0xA0, CHR 0xA5, CHR 0xED, CHR 0x95, CHR 0xB4,
      CHR 0xEC, CHR 0x95, CHR 0xBC] @
     '' '' @
     [CHR 0xED, CHR 0x95, CHR 0xA9, CHR 0xEB, CHR 0x8B, CHR 0x88, CHR 0xEB, CHR 0x8B, CHR 0xA4] @
     ''.''"

text \<open>
  The registration form's message for a taken id, the f-string
  \<^verbatim>\<open>'{user_id}'...\<close> ("'user_id' is an ID already in use").
\<close>

definition duplicate_id_msg :: "string \<Rightarrow> string" where
  "duplicate_id_msg user_id =
     [CHR 0x27] @ user_id @
     [CHR 0x27, CHR 0xEB, CHR 0x8A, CHR 0x94] @
     '' '' @
     [CHR 0xEC, CHR 0x9D, CHR 0xB4, CHR 0xEB, CHR 0xAF, CHR 0xB8] @
     '' '' @
     [CHR 0xEC, CHR 0x82, CHR 0xAC, CHR 0xEC, CHR 0x9A, CHR 0xA9] @
     '' '' @
     [CHR 0xEC, CHR 0xA4, CHR 0x91, CHR 0xEC, CHR 0x9D, CHR 0xB8] @
     '' ID'' @
     [CHR 0xEC, CHR 0x9E, CHR 0x85, CHR 0xEB, CHR 0x8B, CHR 0x88, CHR 0xEB, CHR 0x8B, CHR 0xA4] @
     ''.''"

text \<open>The login form's message ("the ID or the password is not correct").\<close>

definition login_error_msg :: string where
  "login_error_msg =
     ''ID '' @
     [CHR 0xEB, CHR 0x98, CHR 0x90, CHR 0xEB, CHR 0x8A, CHR 0x94] @
     '' '' @
     [CHR 0xEB, CHR 0xB9, CHR 0x84, CHR 0xEB, CHR 0xB0, CHR 0x80, CHR 0xEB, CHR 0xB2, CHR 0x88,
      CHR 0xED, CHR 0x98, CHR 0xB8, CHR 0xEA, CHR 0xB0, CHR 0x80] @
     '' '' @
     [CHR 0xEC, CHR 0x98, CHR 0xAC, CHR 0xEB, CHR 0xB0, CHR 0x94, CHR 0xEB, CHR 0xA5, CHR 0xB4,
      CHR 0xEC, CHR 0xA7, CHR 0x80] @
     '' '' @
     [CHR 0xEC, CHR 0x95, CHR 0x8A, CHR 0xEC, CHR 0x8A, CHR 0xB5, CHR 0xEB, CHR 0x8B, CHR 0x88,
      CHR 0xEB, CHR 0x8B, CHR 0xA4] @
     ''.''"

section \<open>Helper functions of the source\<close>

text \<open>
  \<^verbatim>\<open>get_current_user\<close>: the session's \<^verbatim>\<open>user_id\<close>, when it is truthy, is looked up in
  the user store; the result carries that id and the role of the record found.
\<close>

definition get_current_user :: "('us, 'cs) db \<Rightarrow> ('us, 'cs) app_state \<Rightarrow> pydict option" where
  "get_current_user d st =
     (let user_id = dict_get (session st) ''user_id'' in
      if \<not> truthy user_id then None
      else
        (let user = get_user d (user_store st) user_id in
         if truthy_opt user then
           (case user of
              Some u \<Rightarrow> Some [(''user_id'', user_id), (''role'', dict_get u ''role'')]
            | None \<Rightarrow> None)
         else None))"

text \<open>\<^verbatim>\<open>require_auth\<close>: raises 401 when there is no current user.\<close>

definition require_auth :: "('us, 'cs) db \<Rightarrow> ('us, 'cs) app_state \<Rightarrow> http_exception + pydict" where
  "require_auth d st =
     (let user = get_current_user d st in
      if \<not> truthy_opt user then Inl (HTTPException 401 login_required_detail)
      else (case user of
              Some u \<Rightarrow> Inr u
            | None \<Rightarrow> Inl (HTTPException 401 login_required_detail)))"

text \<open>\<^verbatim>\<open>require_admin\<close>: \<^verbatim>\<open>require_auth\<close>, then 403 unless the role is the string \<^verbatim>\<open>"Admin"\<close>.\<close>

definition require_admin :: "('us, 'cs) db \<Rightarrow> ('us, 'cs) app_state \<Rightarrow> http_exception + pydict" where
  "require_admin d st =
     (case require_auth d st of
        Inl e \<Rightarrow> Inl e
      | Inr user \<Rightarrow>
          if dict_get user ''role'' \<noteq> PStr ''Admin''
          then Inl (HTTPException 403 admin_required_detail)
          else Inr user)"

text \<open>A result that is \<^verbatim>\<open>None\<close> or a dictionary, as the value a template context holds.\<close>

definition opt_value :: "pydict option \<Rightarrow> pyval" where
  "opt_value r = (case r of None \<Rightarrow> PNone | Some u \<Rightarrow> PDict u)"

section \<open>Authentication endpoints\<close>


definition post_register ::
  "('us, 'cs) db \<Rightarrow> ('us, 'cs) app_state \<Rightarrow> string \<Rightarrow> string \<Rightarrow> Role \<Rightarrow> ('us, 'cs) outcome" where
  "post_register d st user_id password role =
     (if \<not> truthy (PStr user_id) \<or> \<not> truthy (PStr password) then
        (let error_msg = missing_fields_msg in
         (Inr (TemplateResponse ''register.html''
                [(''request'', PRequest (session st)), (''error_message'', PStr error_msg)]), st))
      else
        (case register_user d (user_store st) user_id password role of
           (ok, us') \<Rightarrow>
             if ok then
               (Inr (RedirectResponse ''/login'' HTTP_303_SEE_OTHER), st\<lparr>user_store := us'\<rparr>)
             else
               (let error_msg = duplicate_id_msg user_id in
                (Inr (TemplateResponse ''register.html''
                       [(''request'', PRequest (session st)), (''error_message'', PStr error_msg)]),
                 st\<lparr>user_store := us'\<rparr>))))"


definition post_login ::
  "('us, 'cs) db \<Rightarrow> ('us, 'cs) app_state \<Rightarrow> string \<Rightarrow> string \<Rightarrow> ('us, 'cs) outcome" where
  "post_login d st user_id password =
     (let user = get_user d (user_store st) (PStr user_id) in
      case user of
        None \<Rightarrow>
          (Inr (TemplateResponse ''login.html''
                 [(''request'', PRequest (session st)), (''error_message'', PStr login_error_msg)]), st)
      | Some u \<Rightarrow>
          if \<not> truthy_opt user \<or> dict_get u ''password'' \<noteq> PStr password then
            (Inr (TemplateResponse ''login.html''
                   [(''request'', PRequest (session st)), (''error_message'', PStr login_error_msg)]), st)
          else
            (let s1 = dict_set (session st) ''user_id'' (PStr user_id);
                 s2 = dict_set s1 ''role'' (dict_get u ''role'')
             in (Inr (RedirectResponse ''/'' HTTP_303_SEE_OTHER), st\<lparr>session := s2\<rparr>)))"


section \<open>Main page\<close>


section \<open>Classroom management\<close>


definition create_classroom_form :: "('us, 'cs) db \<Rightarrow> ('us, 'cs) app_state \<Rightarrow> ('us, 'cs) outcome" where
  "create_classroom_form d st =
     (case require_admin d st of
        Inl e \<Rightarrow> (Inl e, st)
      | Inr _ \<Rightarrow>
          (Inr (TemplateResponse ''classroom_form.html''
                 [(''request'', PRequest (session st)),
                  (''user'', opt_value (get_current_user d st)),
                  (''classroom'', PNone),
                  (''mode'', PStr ''create'')]), st))"

definition create_classroom_post ::
  "('us, 'cs) db \<Rightarrow> ('us, 'cs) app_state \<Rightarrow> string \<Rightarrow> string \<Rightarrow> int \<Rightarrow> bool \<Rightarrow> bool \<Rightarrow>
   ('us, 'cs) outcome" where
  "create_classroom_post d st name location capacity projector whiteboard =
     (case require_admin d st of
        Inl e \<Rightarrow> (Inl e, st)
      | Inr _ \<Rightarrow>
          (let equipment = [];
               equipment = (if projector then dict_set equipment ''projector'' (PBool True)
                            else equipment);
               equipment = (if whiteboard then dict_set equipment ''whiteboard'' (PBool True)
                            else equipment)
           in case create_classroom d (classroom_store st) name location capacity equipment of
                (classroom_id, cs') \<Rightarrow>
                  (Inr (RedirectResponse ''/classrooms'' HTTP_303_SEE_OTHER),
                   st\<lparr>classroom_store := cs'\<rparr>)))"

definition edit_classroom_form ::
  "('us, 'cs) db \<Rightarrow> ('us, 'cs) app_state \<Rightarrow> int \<Rightarrow> ('us, 'cs) outcome" where
  "edit_classroom_form d st classroom_id =
     (case require_admin d st of
        Inl e \<Rightarrow> (Inl e, st)
      | Inr _ \<Rightarrow>
          (let classroom = get_classroom d (classroom_store st) classroom_id in
           if \<not> truthy_opt classroom then (Inl (HTTPException 404 classroom_not_found_detail), st)
           else
             (Inr (TemplateResponse ''classroom_form.html''
                    [(''request'', PRequest (session st)),
                     (''user'', opt_value (get_current_user d st)),
                     (''classroom'', opt_value classroom),
                     (''classroom_id'', PInt classroom_id),
                     (''mode'', PStr ''edit'')]), st)))"

definition edit_classroom_post ::
  "('us, 'cs) db \<Rightarrow> ('us, 'cs) app_state \<Rightarrow> int \<Rightarrow> string \<Rightarrow> string \<Rightarrow> int \<Rightarrow> bool \<Rightarrow> bool \<Rightarrow>
   ('us, 'cs) outcome" where
  "edit_classroom_post d st classroom_id name location capacity projector whiteboard =
     (case require_admin d st of
        Inl e \<Rightarrow> (Inl e, st)
      | Inr _ \<Rightarrow>
          (let equipment = [];
               equipment = (if projector then dict_set equipment ''projector'' (PBool True)
                            else equipment);
               equipment = (if whiteboard then dict_set equipment ''whiteboard'' (PBool True)
                            else equipment)
           in case update_classroom d (classroom_store st) classroom_id name location capacity
                     equipment of
                (ok, cs') \<Rightarrow>
                  if \<not> ok then
                    (Inl (HTTPException 404 classroom_not_found_detail), st\<lparr>classroom_store := cs'\<rparr>)
                  else
                    (Inr (RedirectResponse ''/classrooms'' HTTP_303_SEE_OTHER),
                     st\<lparr>classroom_store := cs'\<rparr>)))"

definition delete_classroom_post ::
  "('us, 'cs) db \<Rightarrow> ('us, 'cs) app_state \<Rightarrow> int \<Rightarrow> ('us, 'cs) outcome" where
  "delete_classroom_post d st classroom_id =
     (case require_admin d st of
        Inl e \<Rightarrow> (Inl e, st)
      | Inr _ \<Rightarrow>
          (case delete_classroom d (classroom_store st) classroom_id of
             (ok, cs') \<Rightarrow>
               if \<not> ok then
                 (Inl (HTTPException 404 classroom_not_found_detail), st\<lparr>classroom_store := cs'\<rparr>)
               else
                 (Inr (RedirectResponse ''/classrooms'' HTTP_303_SEE_OTHER),
                  st\<lparr>classroom_store := cs'\<rparr>)))"

section \<open>The stores, as the specification describes them\<close>

text \<open>
  Modelled from the spec: the user store \<^verbatim>\<open>user_db.py\<close>, whose code is not among the
  sources. The spec gives "User: {user_id: string (unique, primary key), password:
  string, role: enum{Admin, Student}}" and "register(id, password, role) -> bool,
  get(id) -> User|None"; a second registration of an id "must fail and leave the first
  record unchanged". The table is keyed by the id; the role is stored by its name.
\<close>

type_synonym user_table = "(pyval \<times> pydict) list"

text \<open>Modelled from the spec: the name of a \<^verbatim>\<open>Role\<close>, the string the guards compare with.\<close>

definition role_value :: "Role \<Rightarrow> string" where
  "role_value r = (case r of Admin \<Rightarrow> ''Admin'' | Student \<Rightarrow> ''Student'')"

text \<open>Modelled from the spec: \<^verbatim>\<open>user_db.get_user\<close>, "get(id) -> User|None".\<close>

definition spec_get_user :: "user_table \<Rightarrow> pyval \<Rightarrow> pydict option" where
  "spec_get_user us user_id = map_of us user_id"

text \<open>
  Modelled from the spec: \<^verbatim>\<open>user_db.register_user\<close>, "register(id, password, role) ->
  bool", false and no change when the id is taken.
\<close>

definition spec_register_user ::
  "user_table \<Rightarrow> string \<Rightarrow> string \<Rightarrow> Role \<Rightarrow> bool \<times> user_table" where
  "spec_register_user us user_id password role =
     (if map_of us (PStr user_id) \<noteq> None then (False, us)
      else (True, us @ [(PStr user_id,
                         [(''user_id'', PStr user_id),
                          (''password'', PStr password),
                          (''role'', PStr (role_value role))])]))"

text \<open>
  Modelled from the spec: the classroom store \<^verbatim>\<open>classroom_db.py\<close>, whose code is not
  among the sources. The spec gives "Classroom: {id: integer (unique, assigned by
  store), name: string, location: string, capacity: integer, equipment}" and the
  operations create, get, list, update and delete; update and delete report an id that
  does not exist, and then "must not alter the store". The table is keyed by the id.
\<close>

type_synonym classroom_table = "(int \<times> pydict) list"

text \<open>Modelled from the spec: a classroom record with the fields the spec lists.\<close>

definition classroom_record :: "int \<Rightarrow> string \<Rightarrow> string \<Rightarrow> int \<Rightarrow> pydict \<Rightarrow> pydict" where
  "classroom_record i name location capacity equipment =
     [(''id'', PInt i), (''name'', PStr name), (''location'', PStr location),
      (''capacity'', PInt capacity), (''equipment'', PDict equipment)]"

text \<open>
  Modelled from the spec: \<^verbatim>\<open>classroom_db.create_classroom\<close>; the id is "unique, assigned
  by store", here one more than the largest id in use.
\<close>

definition spec_create_classroom ::
  "classroom_table \<Rightarrow> string \<Rightarrow> string \<Rightarrow> int \<Rightarrow> pydict \<Rightarrow> int \<times> classroom_table" where
  "spec_create_classroom cs name location capacity equipment =
     (let i = fold max (map fst cs) 0 + 1
      in (i, cs @ [(i, classroom_record i name location capacity equipment)]))"

text \<open>Modelled from the spec: \<^verbatim>\<open>classroom_db.get_classroom\<close>, the record of an id or \<^verbatim>\<open>None\<close>.\<close>

definition spec_get_classroom :: "classroom_table \<Rightarrow> int \<Rightarrow> pydict option" where
  "spec_get_classroom cs i = map_of cs i"

text \<open>Modelled from the spec: \<^verbatim>\<open>classroom_db.get_all_classrooms\<close>, the list of all records.\<close>

definition spec_get_all_classrooms :: "classroom_table \<Rightarrow> pyval" where
  "spec_get_all_classrooms cs = PList (map (\<lambda>(i, c). PDict c) cs)"

text \<open>
  Modelled from the spec: \<^verbatim>\<open>classroom_db.update_classroom\<close>; it reports an id that does
  not exist and leaves the store as it is.
\<close>

definition spec_update_classroom ::
  "classroom_table \<Rightarrow> int \<Rightarrow> string \<Rightarrow> string \<Rightarrow> int \<Rightarrow> pydict \<Rightarrow> bool \<times> classroom_table" where
  "spec_update_classroom cs i name location capacity equipment =
     (if map_of cs i = None then (False, cs)
      else (True, AList.update i (classroom_record i name location capacity equipment) cs))"

text \<open>
  Modelled from the spec: \<^verbatim>\<open>classroom_db.delete_classroom\<close>; it reports an id that does
  not exist and leaves the store as it is.
\<close>

definition spec_delete_classroom :: "classroom_table \<Rightarrow> int \<Rightarrow> bool \<times> classroom_table" where
  "spec_delete_classroom cs i =
     (if map_of cs i = None then (False, cs) else (True, AList.delete i cs))"

text \<open>Modelled from the spec: the two stores together, as the operations the handlers import.\<close>

definition spec_db :: "(user_table, classroom_table) db" where
  "spec_db =
     \<lparr>get_user = spec_get_user,
      register_user = spec_register_user,
      create_classroom = spec_create_classroom,
      get_classroom = spec_get_classroom,
      get_all_classrooms = spec_get_all_classrooms,
      update_classroom = spec_update_classroom,
      delete_classroom = spec_delete_classroom\<rparr>"

subsection \<open>A small population\<close>

text \<open>
  The administrator \<^verbatim>\<open>alice\<close> of the spec's end-to-end scenario, a student \<^verbatim>\<open>bob\<close>, and
  one classroom.
\<close>

definition sample_users :: user_table where
  "sample_users =
     [(PStr ''alice'',
       [(''user_id'', PStr ''alice''), (''password'', PStr ''pw1''), (''role'', PStr ''Admin'')]),
      (PStr ''bob'',
       [(''user_id'', PStr ''bob''), (''password'', PStr ''pw2''), (''role'', PStr ''Student'')])]"

definition sample_classrooms :: classroom_table where
  "sample_classrooms =
     [(1, classroom_record 1 ''Lab1'' ''Bldg A'' 30 [(''projector'', PBool True)])]"

definition sample_state :: "pydict \<Rightarrow> (user_table, classroom_table) app_state" where
  "sample_state s =
     \<lparr>session = s, user_store = sample_users, classroom_store = sample_classrooms\<rparr>"

definition alice_session :: pydict where
  "alice_session = [(''user_id'', PStr ''alice''), (''role'', PStr ''Admin'')]"

definition bob_session :: pydict where
  "bob_session = [(''user_id'', PStr ''bob''), (''role'', PStr ''Student'')]"

text \<open>The user table after \<^verbatim>\<open>alice\<close>'s role has been changed to Student.\<close>

definition demoted_users :: user_table where
  "demoted_users =
     [(PStr ''alice'',
       [(''user_id'', PStr ''alice''), (''password'', PStr ''pw1''), (''role'', PStr ''Student'')]),
      (PStr ''bob'',
       [(''user_id'', PStr ''bob''), (''password'', PStr ''pw2''), (''role'', PStr ''Student'')])]"

section \<open>The routes and the states the application reaches\<close>







section \<open>Basic facts\<close>

lemma dict_get_dict_set:
  "dict_get (dict_set d k v) k' = (if k' = k then v else dict_get d k')"
  by (simp add: dict_get_def dict_set_def update_conv')

lemma dict_get_Nil: "dict_get [] k = PNone"
  by (simp add: dict_get_def)

lemma dict_get_Cons:
  "dict_get ((k, v) # d) k' = (if k' = k then v else dict_get d k')"
  by (simp add: dict_get_def)

lemma get_current_user_Some:
  "get_current_user d st = Some u \<Longrightarrow> u \<noteq> [] \<and> truthy_opt (Some u)"
  by (auto simp: get_current_user_def Let_def split: option.splits if_splits)

lemma require_auth_None:
  "get_current_user d st = None \<Longrightarrow>
   require_auth d st = Inl (HTTPException 401 login_required_detail)"
  by (simp add: require_auth_def)

lemma require_auth_Some:
  "get_current_user d st = Some u \<Longrightarrow> require_auth d st = Inr u"
  using get_current_user_Some [of d st u] by (simp add: require_auth_def)

lemma require_admin_None:
  "get_current_user d st = None \<Longrightarrow>
   require_admin d st = Inl (HTTPException 401 login_required_detail)"
  by (simp add: require_admin_def require_auth_None)

lemma require_admin_Some:
  "get_current_user d st = Some u \<Longrightarrow>
   require_admin d st =
     (if dict_get u ''role'' \<noteq> PStr ''Admin''
      then Inl (HTTPException 403 admin_required_detail) else Inr u)"
  by (simp add: require_admin_def require_auth_Some)

text \<open>The guards read the user store through \<open>get_user\<close> and nothing else of the stores.\<close>

lemma get_current_user_cong:
  "get_user d' = get_user d \<Longrightarrow> session st' = session st \<Longrightarrow> user_store st' = user_store st \<Longrightarrow>
   get_current_user d' st' = get_current_user d st"
  by (simp add: get_current_user_def Let_def)

lemma require_admin_cong:
  "get_user d' = get_user d \<Longrightarrow> session st' = session st \<Longrightarrow> user_store st' = user_store st \<Longrightarrow>
   require_admin d' st' = require_admin d st"
  by (simp add: require_admin_def require_auth_def get_current_user_cong [of d' d st' st])

text \<open>An admin handler whose guard fails returns the guard's error and the state it was given.\<close>

lemma admin_handlers_rejected:
  assumes "require_admin d st = Inl e"
  shows "create_classroom_form d st = (Inl e, st)"
    and "create_classroom_post d st name location capacity projector whiteboard = (Inl e, st)"
    and "edit_classroom_form d st cid = (Inl e, st)"
    and "edit_classroom_post d st cid name location capacity projector whiteboard = (Inl e, st)"
    and "delete_classroom_post d st cid = (Inl e, st)"
  using assms
  by (simp_all add: create_classroom_form_def create_classroom_post_def edit_classroom_form_def
      edit_classroom_post_def delete_classroom_post_def)

text \<open>Evaluation of the guards on the small population.\<close>

lemma sample_no_session: "get_current_user spec_db (sample_state []) = None"
  by (simp add: get_current_user_def sample_state_def dict_get_def)

lemma sample_bob:
  "get_current_user spec_db (sample_state bob_session) =
     Some [(''user_id'', PStr ''bob''), (''role'', PStr ''Student'')]"
  by (simp add: get_current_user_def sample_state_def bob_session_def dict_get_def spec_db_def
      spec_get_user_def sample_users_def)

lemma sample_alice:
  "get_current_user spec_db (sample_state alice_session) =
     Some [(''user_id'', PStr ''alice''), (''role'', PStr ''Admin'')]"
  by (simp add: get_current_user_def sample_state_def alice_session_def dict_get_def spec_db_def
      spec_get_user_def sample_users_def)

lemma sample_alice_admin:
  "require_admin spec_db (sample_state alice_session) =
     Inr [(''user_id'', PStr ''alice''), (''role'', PStr ''Admin'')]"
  by (simp add: require_admin_Some [OF sample_alice] dict_get_def)

section \<open>The admin guard on the classroom endpoints\<close>

text \<open>
  C1. On each admin-only classroom endpoint (the create form, create, the edit form,
  edit, delete): when the session yields no current user the handler fails with
  HTTP 401, and when it yields a user whose role is not \<^verbatim>\<open>"Admin"\<close> the handler fails
  with HTTP 403; in both cases the outcome is the guard's error with the state as it
  was, whatever the form fields are.
\<close>

theorem admin_endpoints_401_403:
  "(get_current_user d st = None \<longrightarrow>
      create_classroom_form d st = (Inl (HTTPException 401 login_required_detail), st) \<and>
      create_classroom_post d st name location capacity projector whiteboard =
        (Inl (HTTPException 401 login_required_detail), st) \<and>
      edit_classroom_form d st cid = (Inl (HTTPException 401 login_required_detail), st) \<and>
      edit_classroom_post d st cid name location capacity projector whiteboard =
        (Inl (HTTPException 401 login_required_detail), st) \<and>
      delete_classroom_post d st cid = (Inl (HTTPException 401 login_required_detail), st)) \<and>
   (\<forall>u. get_current_user d st = Some u \<and> dict_get u ''role'' \<noteq> PStr ''Admin'' \<longrightarrow>
      create_classroom_form d st = (Inl (HTTPException 403 admin_required_detail), st) \<and>
      create_classroom_post d st name location capacity projector whiteboard =
        (Inl (HTTPException 403 admin_required_detail), st) \<and>
      edit_classroom_form d st cid = (Inl (HTTPException 403 admin_required_detail), st) \<and>
      edit_classroom_post d st cid name location capacity projector whiteboard =
        (Inl (HTTPException 403 admin_required_detail), st) \<and>
      delete_classroom_post d st cid = (Inl (HTTPException 403 admin_required_detail), st))"
proof (intro conjI impI allI)
  assume none: "get_current_user d st = None"
  note rej = admin_handlers_rejected [OF require_admin_None [OF none]]
  show "create_classroom_form d st = (Inl (HTTPException 401 login_required_detail), st)"
    by (rule rej)
  show "create_classroom_post d st name location capacity projector whiteboard =
        (Inl (HTTPException 401 login_required_detail), st)"
    by (rule rej)
  show "edit_classroom_form d st cid = (Inl (HTTPException 401 login_required_detail), st)"
    by (rule rej)
  show "edit_classroom_post d st cid name location capacity projector whiteboard =
        (Inl (HTTPException 401 login_required_detail), st)"
    by (rule rej)
  show "delete_classroom_post d st cid = (Inl (HTTPException 401 login_required_detail), st)"
    by (rule rej)
next
  fix u
  assume "get_current_user d st = Some u \<and> dict_get u ''role'' \<noteq> PStr ''Admin''"
  then have "require_admin d st = Inl (HTTPException 403 admin_required_detail)"
    by (simp add: require_admin_Some)
  note rej = admin_handlers_rejected [OF this]
  show "create_classroom_form d st = (Inl (HTTPException 403 admin_required_detail), st)"
    by (rule rej)
  show "create_classroom_post d st name location capacity projector whiteboard =
        (Inl (HTTPException 403 admin_required_detail), st)"
    by (rule rej)
  show "edit_classroom_form d st cid = (Inl (HTTPException 403 admin_required_detail), st)"
    by (rule rej)
  show "edit_classroom_post d st cid name location capacity projector whiteboard =
        (Inl (HTTPException 403 admin_required_detail), st)"
    by (rule rej)
  show "delete_classroom_post d st cid = (Inl (HTTPException 403 admin_required_detail), st)"
    by (rule rej)
qed

text \<open>
  With no session the delete endpoint answers 401, and with the student's session the
  create endpoint answers 403, on the small population.
\<close>

theorem admin_endpoints_401_403_witness:
  "get_current_user spec_db (sample_state []) = None \<and>
   delete_classroom_post spec_db (sample_state []) 1 =
     (Inl (HTTPException 401 login_required_detail), sample_state []) \<and>
   get_current_user spec_db (sample_state bob_session) =
     Some [(''user_id'', PStr ''bob''), (''role'', PStr ''Student'')] \<and>
   create_classroom_post spec_db (sample_state bob_session) ''Lab2'' ''Bldg B'' 20 True True =
     (Inl (HTTPException 403 admin_required_detail), sample_state bob_session)"
  using admin_endpoints_401_403 [of spec_db "sample_state []" "''Lab2''" "''Bldg B''" 20 True True 1]
    admin_endpoints_401_403 [of spec_db "sample_state bob_session" "''Lab2''" "''Bldg B''" 20 True True 1]
    sample_no_session sample_bob
  by (simp add: dict_get_def)

text \<open>
  C10. A POST to create, edit or delete whose session yields no user, or a user whose
  role is not \<^verbatim>\<open>"Admin"\<close>, returns the guard's error and the state it was given. This
  holds with the store's operations replaced by any others that answer \<open>get_user\<close> the
  same way: none of create, update and delete is run, so no classroom record is
  created, changed or removed.
\<close>

theorem unauthorized_post_runs_no_store_call:
  assumes "get_current_user d st = None \<or>
           (\<exists>u. get_current_user d st = Some u \<and> dict_get u ''role'' \<noteq> PStr ''Admin'')"
    and "get_user d' = get_user d"
  shows "\<exists>e. require_admin d st = Inl e \<and>
           create_classroom_post d' st name location capacity projector whiteboard = (Inl e, st) \<and>
           edit_classroom_post d' st cid name location capacity projector whiteboard = (Inl e, st) \<and>
           delete_classroom_post d' st cid = (Inl e, st)"
proof -
  from assms(1) obtain e where e: "require_admin d st = Inl e"
    by (auto simp: require_admin_None require_admin_Some)
  from assms(2) have "require_admin d' st = require_admin d st"
    by (rule require_admin_cong) simp_all
  with e have "require_admin d' st = Inl e"
    by simp
  from admin_handlers_rejected [OF this] e show ?thesis
    by blast
qed

text \<open>
  The student's session on the small population: create, edit and delete of the
  existing classroom 1 all leave the state, and so the classroom table, as it was.
\<close>

theorem unauthorized_post_runs_no_store_call_witness:
  "snd (create_classroom_post spec_db (sample_state bob_session) ''Lab2'' ''Bldg B'' 20 True False) =
     sample_state bob_session \<and>
   snd (edit_classroom_post spec_db (sample_state bob_session) 1 ''Lab2'' ''Bldg B'' 20 True False) =
     sample_state bob_session \<and>
   snd (delete_classroom_post spec_db (sample_state bob_session) 1) = sample_state bob_session \<and>
   classroom_store (snd (delete_classroom_post spec_db (sample_state bob_session) 1)) =
     sample_classrooms"
proof -
  have "get_current_user spec_db (sample_state bob_session) = None \<or>
        (\<exists>u. get_current_user spec_db (sample_state bob_session) = Some u \<and>
             dict_get u ''role'' \<noteq> PStr ''Admin'')"
    by (simp add: sample_bob dict_get_def)
  from unauthorized_post_runs_no_store_call [OF this refl,
      of "''Lab2''" "''Bldg B''" 20 True False 1]
  show ?thesis
    by (auto simp: sample_state_def)
qed

section \<open>Where the guards take the role from\<close>

text \<open>
  C2, as stated, fails. \<^verbatim>\<open>alice\<close> logs in while the store holds her record as Admin,
  and the session records the role Admin; once the store holds the record as Student,
  the guards under that same session see a Student and \<open>require_admin\<close> answers 403.
\<close>

theorem session_role_counterexample:
  "post_login spec_db (sample_state []) ''alice'' ''pw1'' =
     (Inr (RedirectResponse ''/'' 303), sample_state alice_session) \<and>
   dict_get alice_session ''role'' = PStr ''Admin'' \<and>
   get_current_user spec_db ((sample_state alice_session)\<lparr>user_store := demoted_users\<rparr>) =
     Some [(''user_id'', PStr ''alice''), (''role'', PStr ''Student'')] \<and>
   require_admin spec_db ((sample_state alice_session)\<lparr>user_store := demoted_users\<rparr>) =
     Inl (HTTPException 403 admin_required_detail)"
  by (simp add: post_login_def get_current_user_def require_admin_def require_auth_def
      sample_state_def alice_session_def sample_users_def demoted_users_def spec_db_def
      spec_get_user_def dict_get_def dict_set_def HTTP_303_SEE_OTHER_def)

text \<open>
  C2, amended. The guards use the role of the record that the user store returns during
  the request. Two states with the same \<^verbatim>\<open>user_id\<close> in the session and the same user
  store get the same answer from all three guards, whatever else (the \<^verbatim>\<open>role\<close> entry
  included) their sessions hold; and the role of an authenticated user is the role of
  the record fetched for the session's \<^verbatim>\<open>user_id\<close>.
\<close>

theorem guards_use_store_role:
  "(dict_get (session st') ''user_id'' = dict_get (session st) ''user_id'' \<and>
    user_store st' = user_store st \<longrightarrow>
      get_current_user d st' = get_current_user d st \<and>
      require_auth d st' = require_auth d st \<and>
      require_admin d st' = require_admin d st) \<and>
   (\<forall>u. require_auth d st = Inr u \<longrightarrow>
      (\<exists>r. get_user d (user_store st) (dict_get (session st) ''user_id'') = Some r \<and>
           dict_get u ''role'' = dict_get r ''role''))"
proof (intro conjI impI allI)
  assume same: "dict_get (session st') ''user_id'' = dict_get (session st) ''user_id'' \<and>
    user_store st' = user_store st"
  then show cur: "get_current_user d st' = get_current_user d st"
    by (simp add: get_current_user_def Let_def)
  then show auth: "require_auth d st' = require_auth d st"
    by (simp add: require_auth_def)
  then show "require_admin d st' = require_admin d st"
    by (simp add: require_admin_def)
next
  fix u
  assume "require_auth d st = Inr u"
  then have "get_current_user d st = Some u"
    by (auto simp: require_auth_def Let_def split: option.splits if_splits)
  then show "\<exists>r. get_user d (user_store st) (dict_get (session st) ''user_id'') = Some r \<and>
           dict_get u ''role'' = dict_get r ''role''"
    by (auto simp: get_current_user_def Let_def dict_get_Cons split: option.splits if_splits)
qed

text \<open>
  After the change of \<^verbatim>\<open>alice\<close>'s role in the store, a session that records Admin and
  one that records Student are treated alike, and the role the guard returns is
  Student, the store's.
\<close>

theorem guards_use_store_role_witness:
  "require_admin spec_db ((sample_state alice_session)\<lparr>user_store := demoted_users\<rparr>) =
     require_admin spec_db
       ((sample_state [(''user_id'', PStr ''alice''), (''role'', PStr ''Student'')])
          \<lparr>user_store := demoted_users\<rparr>) \<and>
   require_auth spec_db ((sample_state alice_session)\<lparr>user_store := demoted_users\<rparr>) =
     Inr [(''user_id'', PStr ''alice''), (''role'', PStr ''Student'')] \<and>
   (\<exists>r. spec_get_user demoted_users (PStr ''alice'') = Some r \<and>
        dict_get r ''role'' = PStr ''Student'')"
  using guards_use_store_role
    [of "(sample_state alice_session)\<lparr>user_store := demoted_users\<rparr>"
        "(sample_state [(''user_id'', PStr ''alice''), (''role'', PStr ''Student'')])
           \<lparr>user_store := demoted_users\<rparr>"
        spec_db]
  by (simp add: sample_state_def alice_session_def dict_get_def require_auth_def
      get_current_user_def spec_db_def spec_get_user_def demoted_users_def)

section \<open>The current user\<close>













section \<open>Login\<close>

text \<open>
  C4. A POST /login that fails, because the store has no user of the submitted id or
  because the stored password differs from the submitted one, re-renders the login
  form with the one message \<open>login_error_msg\<close> and leaves the state as it was. The
  response is built from the session alone, so a failure for an unknown id and a
  failure for a wrong password are the same response.
\<close>

theorem login_failures_indistinguishable:
  "(get_user d (user_store st) (PStr user_id) = None \<longrightarrow>
      post_login d st user_id password =
        (Inr (TemplateResponse ''login.html''
               [(''request'', PRequest (session st)), (''error_message'', PStr login_error_msg)]),
         st)) \<and>
   (\<forall>u. get_user d (user_store st) (PStr user_id') = Some u \<and>
        dict_get u ''password'' \<noteq> PStr password' \<longrightarrow>
      post_login d st user_id' password' =
        (Inr (TemplateResponse ''login.html''
               [(''request'', PRequest (session st)), (''error_message'', PStr login_error_msg)]),
         st)) \<and>
   (\<forall>u. get_user d (user_store st) (PStr user_id) = None \<and>
        get_user d (user_store st) (PStr user_id') = Some u \<and>
        dict_get u ''password'' \<noteq> PStr password' \<longrightarrow>
      post_login d st user_id password = post_login d st user_id' password') \<and>
   status_code (TemplateResponse ''login.html''
      [(''request'', PRequest (session st)), (''error_message'', PStr login_error_msg)]) = 200"
  by (simp add: post_login_def)

text \<open>
  On the small population, the unknown \<^verbatim>\<open>carol\<close> and \<^verbatim>\<open>alice\<close> with a wrong password
  get the same answer.
\<close>

theorem login_failures_indistinguishable_witness:
  "get_user spec_db sample_users (PStr ''carol'') = None \<and>
   get_user spec_db sample_users (PStr ''alice'') =
     Some [(''user_id'', PStr ''alice''), (''password'', PStr ''pw1''), (''role'', PStr ''Admin'')] \<and>
   dict_get [(''user_id'', PStr ''alice''), (''password'', PStr ''pw1''), (''role'', PStr ''Admin'')]
     ''password'' \<noteq> PStr ''guess'' \<and>
   post_login spec_db (sample_state []) ''carol'' ''pw1'' =
     (Inr (TemplateResponse ''login.html''
            [(''request'', PRequest []), (''error_message'', PStr login_error_msg)]),
      sample_state []) \<and>
   post_login spec_db (sample_state []) ''carol'' ''pw1'' =
     post_login spec_db (sample_state []) ''alice'' ''guess''"
  using login_failures_indistinguishable
    [of spec_db "sample_state []" "''carol''" "''pw1''" "''alice''" "''guess''"]
  by (simp add: sample_state_def spec_db_def spec_get_user_def sample_users_def dict_get_def)

text \<open>
  C5. A POST /login for an id whose record the store returns, with the password equal
  to the record's, stores in the session the submitted \<^verbatim>\<open>user_id\<close> and the role of that
  record, changes nothing else, and redirects to \<^verbatim>\<open>/\<close> with status 303. The handler
  takes no role from the caller: its arguments are the id and the password.
\<close>

theorem login_success_stores_record_role:
  assumes "get_user d (user_store st) (PStr user_id) = Some u"
    and "dict_get u ''password'' = PStr password"
  shows "post_login d st user_id password =
           (Inr (RedirectResponse ''/'' 303),
            st\<lparr>session :=
                 dict_set (dict_set (session st) ''user_id'' (PStr user_id))
                   ''role'' (dict_get u ''role'')\<rparr>) \<and>
         dict_get (session (snd (post_login d st user_id password))) ''user_id'' = PStr user_id \<and>
         dict_get (session (snd (post_login d st user_id password))) ''role'' = dict_get u ''role'' \<and>
         user_store (snd (post_login d st user_id password)) = user_store st \<and>
         classroom_store (snd (post_login d st user_id password)) = classroom_store st"
proof -
  from assms(2) have "u \<noteq> []"
    by (auto simp: dict_get_Nil)
  with assms show ?thesis
    by (simp add: post_login_def Let_def dict_get_dict_set HTTP_303_SEE_OTHER_def)
qed

text \<open>
  \<^verbatim>\<open>bob\<close> logs in over a session left by an administrator: the session's role becomes
  Student, the role of his record.
\<close>

theorem login_success_stores_record_role_witness:
  "get_user spec_db sample_users (PStr ''bob'') =
     Some [(''user_id'', PStr ''bob''), (''password'', PStr ''pw2''), (''role'', PStr ''Student'')] \<and>
   post_login spec_db (sample_state alice_session) ''bob'' ''pw2'' =
     (Inr (RedirectResponse ''/'' 303), sample_state bob_session)"
proof -
  have rec: "get_user spec_db (user_store (sample_state alice_session)) (PStr ''bob'') =
     Some [(''user_id'', PStr ''bob''), (''password'', PStr ''pw2''), (''role'', PStr ''Student'')]"
    by (simp add: sample_state_def spec_db_def spec_get_user_def sample_users_def)
  have pw: "dict_get [(''user_id'', PStr ''bob''), (''password'', PStr ''pw2''),
              (''role'', PStr ''Student'')] ''password'' = PStr ''pw2''"
    by (simp add: dict_get_def)
  from login_success_stores_record_role [OF rec pw] rec show ?thesis
    by (simp add: sample_state_def alice_session_def bob_session_def dict_set_def dict_get_def)
qed

section \<open>Registration\<close>

text \<open>
  C6. A POST /register with a non-empty id and a non-empty password calls the store's
  register once. When the store reports the id taken, the answer is the registration
  form with the duplicate-id message, a template response of status 200; when the
  store reports success, the answer is a redirect to \<^verbatim>\<open>/login\<close> with status 303.
\<close>

theorem register_duplicate_or_redirect:
  assumes "user_id \<noteq> []" and "password \<noteq> []"
    and "register_user d (user_store st) user_id password role = (ok, us')"
  shows "(\<not> ok \<longrightarrow>
            post_register d st user_id password role =
              (Inr (TemplateResponse ''register.html''
                     [(''request'', PRequest (session st)),
                      (''error_message'', PStr (duplicate_id_msg user_id))]),
               st\<lparr>user_store := us'\<rparr>) \<and>
            (\<exists>r. fst (post_register d st user_id password role) = Inr r \<and> status_code r = 200)) \<and>
         (ok \<longrightarrow>
            post_register d st user_id password role =
              (Inr (RedirectResponse ''/login'' 303), st\<lparr>user_store := us'\<rparr>) \<and>
            (\<exists>r. fst (post_register d st user_id password role) = Inr r \<and> status_code r = 303))"
  using assms by (simp add: post_register_def HTTP_303_SEE_OTHER_def)

text \<open>
  On the small population: registering \<^verbatim>\<open>alice\<close> again gives the form and leaves the
  table as it was; registering \<^verbatim>\<open>carol\<close> redirects to the login page.
\<close>

theorem register_duplicate_or_redirect_witness:
  "post_register spec_db (sample_state []) ''alice'' ''other'' Student =
     (Inr (TemplateResponse ''register.html''
            [(''request'', PRequest []),
             (''error_message'', PStr (duplicate_id_msg ''alice''))]),
      sample_state []) \<and>
   fst (post_register spec_db (sample_state []) ''carol'' ''pw3'' Student) =
     Inr (RedirectResponse ''/login'' 303)"
proof -
  have a: "register_user spec_db (user_store (sample_state [])) ''alice'' ''other'' Student =
             (False, sample_users)"
    by (simp add: sample_state_def spec_db_def spec_register_user_def sample_users_def)
  obtain us' where c: "register_user spec_db (user_store (sample_state [])) ''carol'' ''pw3'' Student =
             (True, us')"
    by (simp add: sample_state_def spec_db_def spec_register_user_def sample_users_def)
  have ne: "''alice'' \<noteq> []" "''other'' \<noteq> []" "''carol'' \<noteq> []" "''pw3'' \<noteq> []"
    by simp_all
  from register_duplicate_or_redirect [OF ne(1) ne(2) a]
    register_duplicate_or_redirect [OF ne(3) ne(4) c]
  show ?thesis
    by (simp add: sample_state_def)
qed

text \<open>
  C7. A POST /register whose id or password is the empty string re-renders the
  registration form with the missing-fields message, a template response of status
  200, and returns the state it was given: the store's register is not run, whatever
  it would do.
\<close>

theorem register_empty_field_rejected:
  assumes "user_id = [] \<or> password = []"
  shows "post_register d st user_id password role =
           (Inr (TemplateResponse ''register.html''
                  [(''request'', PRequest (session st)),
                   (''error_message'', PStr missing_fields_msg)]),
            st) \<and>
         status_code (TemplateResponse ''register.html''
                  [(''request'', PRequest (session st)),
                   (''error_message'', PStr missing_fields_msg)]) = 200 \<and>
         user_store (snd (post_register d st user_id password role)) = user_store st"
  using assms by (auto simp: post_register_def)

text \<open>
  An empty password for the new id \<^verbatim>\<open>carol\<close>, which the store would accept: the form
  comes back and the user table is as it was.
\<close>

theorem register_empty_field_rejected_witness:
  "fst (spec_register_user sample_users ''carol'' [] Student) = True \<and>
   post_register spec_db (sample_state []) ''carol'' [] Student =
     (Inr (TemplateResponse ''register.html''
            [(''request'', PRequest []), (''error_message'', PStr missing_fields_msg)]),
      sample_state []) \<and>
   user_store (snd (post_register spec_db (sample_state []) ''carol'' [] Student)) = sample_users"
  using register_empty_field_rejected [of "''carol''" "[]" spec_db "sample_state []" Student]
  by (simp add: sample_state_def spec_register_user_def sample_users_def)

section \<open>Equipment\<close>

text \<open>
  C8. For an administrator, POST create and POST edit pass to the classroom store an
  equipment dictionary \<open>E\<close> that holds exactly the flags submitted as true, each with
  the value \<^verbatim>\<open>True\<close>: a key is in \<open>E\<close> if and only if it is \<^verbatim>\<open>projector\<close> with the
  projector flag set or \<^verbatim>\<open>whiteboard\<close> with the whiteboard flag set, no key occurs
  twice, and no key has the value \<^verbatim>\<open>False\<close>. With the projector flag alone, \<open>E\<close> is
  \<^verbatim>\<open>{"projector": True}\<close>. The store is any implementation: the state after the request
  is the one its create (or update) returns for \<open>E\<close>.
\<close>

theorem equipment_holds_true_flags_only:
  assumes "require_admin d st = Inr u"
  shows "\<exists>E. (\<forall>k v. map_of E k = Some v \<longleftrightarrow>
                  v = PBool True \<and>
                  (k = ''projector'' \<and> projector \<or> k = ''whiteboard'' \<and> whiteboard)) \<and>
             distinct (map fst E) \<and>
             (projector \<and> \<not> whiteboard \<longrightarrow> E = [(''projector'', PBool True)]) \<and>
             create_classroom_post d st name location capacity projector whiteboard =
               (Inr (RedirectResponse ''/classrooms'' 303),
                st\<lparr>classroom_store :=
                     snd (create_classroom d (classroom_store st) name location capacity E)\<rparr>) \<and>
             snd (edit_classroom_post d st cid name location capacity projector whiteboard) =
               st\<lparr>classroom_store :=
                    snd (update_classroom d (classroom_store st) cid name location capacity E)\<rparr>"
proof -
  let ?E = "(if projector then [(''projector'', PBool True)] else []) @
            (if whiteboard then [(''whiteboard'', PBool True)] else [])"
  have keys: "\<forall>k v. map_of ?E k = Some v \<longleftrightarrow>
                  v = PBool True \<and>
                  (k = ''projector'' \<and> projector \<or> k = ''whiteboard'' \<and> whiteboard)"
    by auto
  have dist: "distinct (map fst ?E)"
    by simp
  have one: "projector \<and> \<not> whiteboard \<longrightarrow> ?E = [(''projector'', PBool True)]"
    by simp
  have cr: "create_classroom_post d st name location capacity projector whiteboard =
               (Inr (RedirectResponse ''/classrooms'' 303),
                st\<lparr>classroom_store :=
                     snd (create_classroom d (classroom_store st) name location capacity ?E)\<rparr>)"
    using assms
    by (simp add: create_classroom_post_def dict_set_def HTTP_303_SEE_OTHER_def
        split: prod.splits)
  have ed: "snd (edit_classroom_post d st cid name location capacity projector whiteboard) =
               st\<lparr>classroom_store :=
                    snd (update_classroom d (classroom_store st) cid name location capacity ?E)\<rparr>"
    using assms
    by (simp add: edit_classroom_post_def dict_set_def split: prod.splits)
  from keys dist one cr ed show ?thesis
    by blast
qed

text \<open>
  The administrator \<^verbatim>\<open>alice\<close> creates a classroom with the projector flag alone: the
  record the store appends has the equipment \<^verbatim>\<open>{"projector": True}\<close>.
\<close>

theorem equipment_holds_true_flags_only_witness:
  "require_admin spec_db (sample_state alice_session) =
     Inr [(''user_id'', PStr ''alice''), (''role'', PStr ''Admin'')] \<and>
   create_classroom_post spec_db (sample_state alice_session) ''Lab2'' ''Bldg B'' 20 True False =
     (Inr (RedirectResponse ''/classrooms'' 303),
      (sample_state alice_session)
        \<lparr>classroom_store :=
           sample_classrooms @
           [(2, classroom_record 2 ''Lab2'' ''Bldg B'' 20 [(''projector'', PBool True)])]\<rparr>)"
  using equipment_holds_true_flags_only
    [OF sample_alice_admin, of True False "''Lab2''" "''Bldg B''" 20 1]
    sample_alice_admin
  by (auto simp: sample_state_def spec_db_def spec_create_classroom_def sample_classrooms_def)

section \<open>Editing and deleting a classroom\<close>

text \<open>For an administrator, edit and delete answer as the store's operation reports.\<close>

lemma edit_follows_update:
  assumes "require_admin d st = Inr u"
  shows "\<exists>E. edit_classroom_post d st cid name location capacity projector whiteboard =
           (case update_classroom d (classroom_store st) cid name location capacity E of
              (ok, cs') \<Rightarrow>
                (if ok then Inr (RedirectResponse ''/classrooms'' 303)
                 else Inl (HTTPException 404 classroom_not_found_detail),
                 st\<lparr>classroom_store := cs'\<rparr>))"
proof -
  let ?E = "(if projector then [(''projector'', PBool True)] else []) @
            (if whiteboard then [(''whiteboard'', PBool True)] else [])"
  have "edit_classroom_post d st cid name location capacity projector whiteboard =
           (case update_classroom d (classroom_store st) cid name location capacity ?E of
              (ok, cs') \<Rightarrow>
                (if ok then Inr (RedirectResponse ''/classrooms'' 303)
                 else Inl (HTTPException 404 classroom_not_found_detail),
                 st\<lparr>classroom_store := cs'\<rparr>))"
    using assms
    by (simp add: edit_classroom_post_def dict_set_def HTTP_303_SEE_OTHER_def split: prod.splits)
  then show ?thesis ..
qed

lemma delete_follows_delete:
  assumes "require_admin d st = Inr u"
  shows "delete_classroom_post d st cid =
           (case delete_classroom d (classroom_store st) cid of
              (ok, cs') \<Rightarrow>
                (if ok then Inr (RedirectResponse ''/classrooms'' 303)
                 else Inl (HTTPException 404 classroom_not_found_detail),
                 st\<lparr>classroom_store := cs'\<rparr>))"
  using assms
  by (auto simp: delete_classroom_post_def HTTP_303_SEE_OTHER_def split: prod.splits)

text \<open>
  C9, over the classroom store as the specification describes it. For an
  administrator: when the store has no classroom of the id, POST edit and POST delete
  fail with HTTP 404 and return the state, and so the classroom table, as it was; when
  the store has a classroom of the id, both answer with a redirect to \<^verbatim>\<open>/classrooms\<close>
  of status 303.
\<close>

theorem missing_classroom_404_else_redirect:
  assumes "require_admin spec_db st = Inr u"
  shows "(get_classroom spec_db (classroom_store st) cid = None \<longrightarrow>
            edit_classroom_post spec_db st cid name location capacity projector whiteboard =
              (Inl (HTTPException 404 classroom_not_found_detail), st) \<and>
            delete_classroom_post spec_db st cid =
              (Inl (HTTPException 404 classroom_not_found_detail), st)) \<and>
         (\<forall>r. get_classroom spec_db (classroom_store st) cid = Some r \<longrightarrow>
            fst (edit_classroom_post spec_db st cid name location capacity projector whiteboard) =
              Inr (RedirectResponse ''/classrooms'' 303) \<and>
            fst (delete_classroom_post spec_db st cid) =
              Inr (RedirectResponse ''/classrooms'' 303))"
proof -
  obtain E where ed: "edit_classroom_post spec_db st cid name location capacity projector whiteboard =
           (case spec_update_classroom (classroom_store st) cid name location capacity E of
              (ok, cs') \<Rightarrow>
                (if ok then Inr (RedirectResponse ''/classrooms'' 303)
                 else Inl (HTTPException 404 classroom_not_found_detail),
                 st\<lparr>classroom_store := cs'\<rparr>))"
    using edit_follows_update [OF assms, of cid name location capacity projector whiteboard]
    by (auto simp: spec_db_def)
  have de: "delete_classroom_post spec_db st cid =
           (case spec_delete_classroom (classroom_store st) cid of
              (ok, cs') \<Rightarrow>
                (if ok then Inr (RedirectResponse ''/classrooms'' 303)
                 else Inl (HTTPException 404 classroom_not_found_detail),
                 st\<lparr>classroom_store := cs'\<rparr>))"
    using delete_follows_delete [OF assms, of cid]
    by (simp add: spec_db_def)
  have gc: "get_classroom spec_db = spec_get_classroom"
    by (simp add: spec_db_def)
  show ?thesis
    unfolding ed de gc
    by (simp add: spec_update_classroom_def spec_delete_classroom_def spec_get_classroom_def)
qed

text \<open>
  The administrator \<^verbatim>\<open>alice\<close> on the small population: classroom 7 does not exist, and
  edit and delete of it answer 404 with the state as it was; classroom 1 exists, and
  edit and delete of it redirect.
\<close>

theorem missing_classroom_404_else_redirect_witness:
  "get_classroom spec_db sample_classrooms 7 = None \<and>
   edit_classroom_post spec_db (sample_state alice_session) 7 ''Lab7'' ''Bldg C'' 10 False True =
     (Inl (HTTPException 404 classroom_not_found_detail), sample_state alice_session) \<and>
   delete_classroom_post spec_db (sample_state alice_session) 7 =
     (Inl (HTTPException 404 classroom_not_found_detail), sample_state alice_session) \<and>
   get_classroom spec_db sample_classrooms 1 =
     Some (classroom_record 1 ''Lab1'' ''Bldg A'' 30 [(''projector'', PBool True)]) \<and>
   fst (edit_classroom_post spec_db (sample_state alice_session) 1 ''Lab7'' ''Bldg C'' 10 False True) =
     Inr (RedirectResponse ''/classrooms'' 303) \<and>
   delete_classroom_post spec_db (sample_state alice_session) 1 =
     (Inr (RedirectResponse ''/classrooms'' 303),
      (sample_state alice_session)\<lparr>classroom_store := []\<rparr>)"
proof -
  have del: "delete_classroom_post spec_db (sample_state alice_session) 1 =
     (Inr (RedirectResponse ''/classrooms'' 303),
      (sample_state alice_session)\<lparr>classroom_store := []\<rparr>)"
    unfolding delete_follows_delete [OF sample_alice_admin]
    by (simp add: spec_db_def spec_delete_classroom_def sample_state_def sample_classrooms_def)
  from missing_classroom_404_else_redirect
    [OF sample_alice_admin, of 7 "''Lab7''" "''Bldg C''" 10 False True]
    missing_classroom_404_else_redirect
    [OF sample_alice_admin, of 1 "''Lab7''" "''Bldg C''" 10 False True]
    del
  show ?thesis
    by (simp add: sample_state_def spec_db_def spec_get_classroom_def sample_classrooms_def)
qed

end
